theory Spec2Isabelle
  imports Complex_Main
begin

section \<open>The HOS compliance engine (backend/hos\_app/hos\_engine.py)\<close>

text \<open>
  The engine plans a trip day by day under the hours-of-service rules. This theory
  embeds \<^verbatim>\<open>HOSEngine\<close> function by function.

  Numbers. The source computes with Python floats. Here every hour and mile value is an
  exact rational (\<^typ>\<open>rat\<close>): comparisons, \<^verbatim>\<open>min\<close>, sums and differences are the
  source's, without the binary rounding of IEEE arithmetic. \<^verbatim>\<open>round(x, 2)\<close> is
  rounding to the nearest hundredth, ties to the even hundredth.

  Time. A \<^verbatim>\<open>datetime\<close> is an integer count of microseconds since a fixed epoch
  (the resolution of Python's \<^verbatim>\<open>datetime\<close>); \<^verbatim>\<open>timedelta(hours=h)\<close> rounds
  \<open>h\<close> hours to whole microseconds. The range limit of \<^verbatim>\<open>datetime\<close> (year 9999) is
  not modelled. A calendar date is the number of whole days since the epoch, of which
  \<^verbatim>\<open>isoformat()\<close> is an injective rendering. The keys \<^verbatim>\<open>start_time_str\<close> and
  \<^verbatim>\<open>end_time_str\<close> of a log entry are renderings of \<^verbatim>\<open>start_time\<close> and
  \<^verbatim>\<open>end_time\<close> and are left out.

  The clock. \<^verbatim>\<open>datetime.now()\<close> is the only reading of the environment: it is the
  parameter \<open>now\<close> of the functions below.
\<close>

subsection \<open>Constants\<close>

abbreviation (input) MAX_DRIVING_HOURS :: rat where "MAX_DRIVING_HOURS \<equiv> 11"
abbreviation (input) MAX_ON_DUTY_HOURS :: rat where "MAX_ON_DUTY_HOURS \<equiv> 14"
abbreviation (input) REQUIRED_BREAK_AFTER_HOURS :: rat where "REQUIRED_BREAK_AFTER_HOURS \<equiv> 8"
abbreviation (input) REQUIRED_BREAK_DURATION :: rat where "REQUIRED_BREAK_DURATION \<equiv> 1 / 2"
abbreviation (input) MAX_CYCLE_HOURS :: rat where "MAX_CYCLE_HOURS \<equiv> 70"
abbreviation (input) RESET_OFF_DUTY_HOURS :: rat where "RESET_OFF_DUTY_HOURS \<equiv> 10"
abbreviation (input) RESTART_OFF_DUTY_HOURS :: rat where "RESTART_OFF_DUTY_HOURS \<equiv> 34"
abbreviation (input) AVG_SPEED_MPH :: rat where "AVG_SPEED_MPH \<equiv> 60"
abbreviation (input) FUEL_STOP_MILES :: rat where "FUEL_STOP_MILES \<equiv> 1000"
abbreviation (input) FUEL_STOP_DURATION :: rat where "FUEL_STOP_DURATION \<equiv> 1 / 2"
abbreviation (input) PICKUP_DURATION :: rat where "PICKUP_DURATION \<equiv> 1"
abbreviation (input) DROPOFF_DURATION :: rat where "DROPOFF_DURATION \<equiv> 1"

subsection \<open>Rounding, time and formatting\<close>

definition round_half_even :: "rat \<Rightarrow> int" where
  "round_half_even x =
     (let f = \<lfloor>x\<rfloor>; r = x - of_int f
      in if r < 1 / 2 then f
         else if 1 / 2 < r then f + 1
         else if even f then f else f + 1)"

text \<open>\<^verbatim>\<open>round(x, 2)\<close>\<close>

definition round2 :: "rat \<Rightarrow> rat" where
  "round2 x = of_int (round_half_even (x * 100)) / 100"

text \<open>\<^verbatim>\<open>timedelta(hours=h)\<close>, in microseconds.\<close>

definition timedelta_hours :: "rat \<Rightarrow> int" where
  "timedelta_hours h = round_half_even (h * 3600000000)"

text \<open>\<^verbatim>\<open>t.date()\<close>, as days since the epoch.\<close>

definition date_of :: "int \<Rightarrow> int" where
  "date_of t = t div 86400000000"

text \<open>\<^verbatim>\<open>t.replace(hour=6, minute=0, second=0, microsecond=0)\<close>\<close>

definition six_am :: "int \<Rightarrow> int" where
  "six_am t = date_of t * 86400000000 + 6 * 3600000000"

fun dec_digits :: "nat \<Rightarrow> string" where
  "dec_digits n =
     (if n < 10 then [''0123456789'' ! n]
      else dec_digits (n div 10) @ [''0123456789'' ! (n mod 10)])"

text \<open>
  \<^verbatim>\<open>f'{x:.0f}'\<close>: the nearest integer, ties to even, in decimal. (For a negative
  \<open>x\<close> that rounds to zero Python prints \<^verbatim>\<open>-0\<close>; the engine formats only the miles of
  a driving segment, which are at least 6.)
\<close>

definition fmt0 :: "rat \<Rightarrow> string" where
  "fmt0 x =
     (let r = round_half_even x
      in if r < 0 then ''-'' @ dec_digits (nat (- r)) else dec_digits (nat r))"

subsection \<open>Data\<close>

datatype duty_status = OFF | SB | D | ON

text \<open>A log entry: the dict built by \<^verbatim>\<open>_create_log_entry\<close>.\<close>

record log_entry =
  status :: duty_status
  start_time :: int
  end_time :: int
  duration :: rat
  entry_notes :: string

text \<open>
  A daily log: the dict \<^verbatim>\<open>day_log\<close> (or \<^verbatim>\<open>restart_log\<close>). Its keys
  \<^verbatim>\<open>start_time\<close> and \<^verbatim>\<open>end_time\<close> are the fields \<open>day_start_time\<close> and
  \<open>day_end_time\<close> here. Only a restart log has the key \<^verbatim>\<open>is_restart\<close>; the source
  reads it with \<^verbatim>\<open>log.get('is_restart')\<close>, which is falsy on a work day.
\<close>

record day_log =
  day_number :: nat
  date :: int
  day_start_time :: int
  day_end_time :: int
  log_entries :: "log_entry list"
  total_driving_hours :: rat
  total_on_duty_hours :: rat
  total_off_duty_hours :: rat
  remaining_drive_time :: rat
  remaining_on_duty_time :: rat
  cycle_hours_remaining :: rat
  is_restart :: bool

text \<open>The dict returned by \<^verbatim>\<open>calculate_trip\<close>.\<close>

record trip_plan =
  trip_total_miles :: rat
  trip_total_driving_hours :: rat
  estimated_days :: int
  actual_days :: nat
  num_fuel_stops :: int
  trip_daily_logs :: "day_log list"
  cycle_used_before :: rat
  cycle_used_after :: rat
  restart_needed :: bool

text \<open>
  The local variables of \<^verbatim>\<open>_generate_daily_schedule\<close>. \<open>entries\<close> is
  \<^verbatim>\<open>day_log['log_entries']\<close> of the day under construction; \<open>cur_day\<close> is the
  local \<^verbatim>\<open>day_number\<close>.
\<close>

record sim_state =
  daily_logs :: "day_log list"
  remaining_miles :: rat
  remaining_driving_hours :: rat
  miles_since_fuel :: rat
  current_cycle :: rat
  cur_day :: nat
  current_time :: int
  pickup_done :: bool
  dropoff_done :: bool
  entries :: "log_entry list"
  hours_driven_today :: rat
  hours_on_duty_today :: rat
  hours_since_break :: rat

subsection \<open>Log entries and restart logs\<close>

definition create_log_entry :: "duty_status \<Rightarrow> int \<Rightarrow> rat \<Rightarrow> string \<Rightarrow> log_entry" where
  "create_log_entry st start dur nts =
     \<lparr>status = st, start_time = start, end_time = start + timedelta_hours dur,
      duration = round2 dur, entry_notes = nts\<rparr>"

definition create_restart_log :: "nat \<Rightarrow> int \<Rightarrow> day_log" where
  "create_restart_log dn start =
     (let fin = start + timedelta_hours RESTART_OFF_DUTY_HOURS
      in \<lparr>day_number = dn, date = date_of start, day_start_time = start, day_end_time = fin,
          log_entries =
            [\<lparr>status = OFF, start_time = start, end_time = fin,
              duration = RESTART_OFF_DUTY_HOURS, entry_notes = ''34-hour restart (cycle reset)''\<rparr>],
          total_driving_hours = 0, total_on_duty_hours = 0,
          total_off_duty_hours = RESTART_OFF_DUTY_HOURS,
          remaining_drive_time = MAX_DRIVING_HOURS,
          remaining_on_duty_time = MAX_ON_DUTY_HOURS,
          cycle_hours_remaining = MAX_CYCLE_HOURS,
          is_restart = True\<rparr>)"

text \<open>Appending an entry to the day's log and advancing the clock to its end.\<close>

definition add_entry :: "log_entry \<Rightarrow> sim_state \<Rightarrow> sim_state" where
  "add_entry e s = s\<lparr>entries := entries s @ [e], current_time := end_time e\<rparr>"

subsection \<open>The driving loop of one day (lines 182 to 260)\<close>

definition drive_duration :: "rat \<Rightarrow> rat \<Rightarrow> sim_state \<Rightarrow> rat" where
  "drive_duration max_drive_hours max_on_duty_hours s =
     (let hours_until_break = REQUIRED_BREAK_AFTER_HOURS - hours_since_break s;
          hours_until_drive_limit = max_drive_hours - hours_driven_today s;
          hours_until_duty_limit = max_on_duty_hours - hours_on_duty_today s
      in min hours_until_break (min hours_until_drive_limit (min hours_until_duty_limit
           (min (remaining_driving_hours s) 2))))"

definition take_break :: "sim_state \<Rightarrow> sim_state" where
  "take_break s =
     (add_entry (create_log_entry OFF (current_time s) REQUIRED_BREAK_DURATION
        ''30-minute break (8-hour rule)'') s)\<lparr>hours_since_break := 0\<rparr>"

definition fuel_stop :: "sim_state \<Rightarrow> sim_state" where
  "fuel_stop s =
     (add_entry (create_log_entry ON (current_time s) FUEL_STOP_DURATION ''Fuel stop'') s)
       \<lparr>hours_on_duty_today := hours_on_duty_today s + FUEL_STOP_DURATION,
        miles_since_fuel := 0\<rparr>"

definition drive :: "rat \<Rightarrow> sim_state \<Rightarrow> sim_state" where
  "drive dd s =
     (let miles_driven = dd * AVG_SPEED_MPH
      in (add_entry (create_log_entry D (current_time s) dd
            (''Driving - '' @ fmt0 miles_driven @ '' miles'')) s)
          \<lparr>hours_driven_today := hours_driven_today s + dd,
           hours_on_duty_today := hours_on_duty_today s + dd,
           hours_since_break := hours_since_break s + dd,
           remaining_driving_hours := remaining_driving_hours s - dd,
           remaining_miles := remaining_miles s - miles_driven,
           miles_since_fuel := miles_since_fuel s + miles_driven\<rparr>)"

definition dropoff :: "sim_state \<Rightarrow> sim_state" where
  "dropoff s =
     (add_entry (create_log_entry ON (current_time s) DROPOFF_DURATION
        ''Dropoff - Unloading'') s)
       \<lparr>hours_on_duty_today := hours_on_duty_today s + DROPOFF_DURATION,
        dropoff_done := True\<rparr>"

definition loop_measure :: "rat \<times> rat \<times> sim_state \<Rightarrow> nat" where
  "loop_measure = (\<lambda>(max_drive_hours, max_on_duty_hours, s).
     3 * nat \<lfloor>(max_drive_hours - hours_driven_today s) * 10\<rfloor>
     + (if REQUIRED_BREAK_AFTER_HOURS \<le> hours_since_break s then 1 else 0)
     + (if FUEL_STOP_MILES \<le> miles_since_fuel s \<and> 0 < remaining_miles s then 1 else 0))"

function drive_loop :: "rat \<Rightarrow> rat \<Rightarrow> sim_state \<Rightarrow> sim_state" where
  "drive_loop max_drive_hours max_on_duty_hours s =
     (if hours_driven_today s < max_drive_hours
         \<and> hours_on_duty_today s < max_on_duty_hours
         \<and> 0 < remaining_driving_hours s
      then
        if REQUIRED_BREAK_AFTER_HOURS \<le> hours_since_break s
        then drive_loop max_drive_hours max_on_duty_hours (take_break s)
        else if FUEL_STOP_MILES \<le> miles_since_fuel s \<and> 0 < remaining_miles s
        then drive_loop max_drive_hours max_on_duty_hours (fuel_stop s)
        else if drive_duration max_drive_hours max_on_duty_hours s < 1 / 10
        then s
        else if remaining_driving_hours
                  (drive (drive_duration max_drive_hours max_on_duty_hours s) s) \<le> 0
                \<and> \<not> dropoff_done
                  (drive (drive_duration max_drive_hours max_on_duty_hours s) s)
        then dropoff (drive (drive_duration max_drive_hours max_on_duty_hours s) s)
        else drive_loop max_drive_hours max_on_duty_hours
               (drive (drive_duration max_drive_hours max_on_duty_hours s) s)
      else s)"
  by pat_completeness auto

termination drive_loop
proof (relation "measure loop_measure")
  show "wf (measure loop_measure)" by simp
next
  fix md mo :: rat and s :: sim_state
  assume "REQUIRED_BREAK_AFTER_HOURS \<le> hours_since_break s"
  then show "((md, mo, take_break s), (md, mo, s)) \<in> measure loop_measure"
    by (simp add: loop_measure_def take_break_def add_entry_def)
next
  fix md mo :: rat and s :: sim_state
  assume "\<not> REQUIRED_BREAK_AFTER_HOURS \<le> hours_since_break s"
    and "FUEL_STOP_MILES \<le> miles_since_fuel s \<and> 0 < remaining_miles s"
  then show "((md, mo, fuel_stop s), (md, mo, s)) \<in> measure loop_measure"
    by (simp add: loop_measure_def fuel_stop_def add_entry_def)
next
  fix md mo :: rat and s :: sim_state
  let ?dd = "drive_duration md mo s"
  let ?x = "md - hours_driven_today s"
  assume d: "\<not> ?dd < 1 / 10"
  have le: "?dd \<le> ?x"
    by (simp add: drive_duration_def Let_def)
  have "(?x - ?dd) * 10 \<le> ?x * 10 - 1" using d by simp
  then have "\<lfloor>(?x - ?dd) * 10\<rfloor> \<le> \<lfloor>?x * 10 - 1\<rfloor>" by (rule floor_mono)
  also have "\<dots> = \<lfloor>?x * 10\<rfloor> - 1" by simp
  finally have b: "\<lfloor>(?x - ?dd) * 10\<rfloor> \<le> \<lfloor>?x * 10\<rfloor> - 1" .
  have "1 \<le> ?x * 10" using d le by simp
  then have "1 \<le> \<lfloor>?x * 10\<rfloor>" by (simp add: le_floor_iff)
  with b have key: "nat \<lfloor>(?x - ?dd) * 10\<rfloor> + 1 \<le> nat \<lfloor>?x * 10\<rfloor>" by linarith
  have h: "md - hours_driven_today (drive ?dd s) = ?x - ?dd"
    by (simp add: drive_def add_entry_def Let_def)
  have "loop_measure (md, mo, drive ?dd s)
        \<le> 3 * nat \<lfloor>(md - hours_driven_today (drive ?dd s)) * 10\<rfloor> + 2"
    by (simp add: loop_measure_def)
  also have "\<dots> < 3 * nat \<lfloor>?x * 10\<rfloor>"
    unfolding h using key by linarith
  also have "\<dots> \<le> loop_measure (md, mo, s)"
    by (simp add: loop_measure_def)
  finally show "((md, mo, drive ?dd s), (md, mo, s)) \<in> measure loop_measure"
    by simp
qed

declare drive_loop.simps [simp del]

subsection \<open>One iteration of the day loop (lines 119 to 301)\<close>

text \<open>Lines 123 to 127, and again 134 to 138: a restart day.\<close>

definition restart_day :: "sim_state \<Rightarrow> sim_state" where
  "restart_day s =
     (let restart_log = create_restart_log (cur_day s) (current_time s)
      in s\<lparr>daily_logs := daily_logs s @ [restart_log],
           current_cycle := 0,
           current_time := day_end_time restart_log,
           cur_day := cur_day s + 1\<rparr>)"

text \<open>Lines 169 to 179.\<close>

definition pickup :: "sim_state \<Rightarrow> sim_state" where
  "pickup s =
     (add_entry (create_log_entry ON (current_time s) PICKUP_DURATION ''Pickup - Loading'') s)
       \<lparr>hours_on_duty_today := hours_on_duty_today s + PICKUP_DURATION,
        pickup_done := True\<rparr>"

text \<open>Lines 264 to 271.\<close>

definition rest :: "sim_state \<Rightarrow> sim_state" where
  "rest s =
     add_entry (create_log_entry SB (current_time s) RESET_OFF_DUTY_HOURS
       ''10-hour rest period (daily reset)'') s"

text \<open>
  Lines 274 to 280: the day's totals (driving, on duty, off duty), summed over the
  entries in order.
\<close>

fun day_totals :: "log_entry list \<Rightarrow> rat \<times> rat \<times> rat \<Rightarrow> rat \<times> rat \<times> rat" where
  "day_totals [] acc = acc"
| "day_totals (e # es) (drv, onn, off) =
     day_totals es
       (if status e = D then drv + duration e else drv,
        if status e = D \<or> status e = ON then onn + duration e else onn,
        if status e = OFF \<or> status e = SB then off + duration e else off)"

text \<open>
  Lines 142 to 297: a work day, in the source's order. \<open>tdh\<close> is the trip's
  \<^verbatim>\<open>total_driving_hours\<close>.
\<close>

text \<open>Lines 153 to 161: the day's caps, from the state in which the day starts.\<close>

definition max_drive_hours :: "sim_state \<Rightarrow> rat" where
  "max_drive_hours s =
     (let available_cycle_hours = MAX_CYCLE_HOURS - current_cycle s
      in min MAX_DRIVING_HOURS (min (remaining_driving_hours s) available_cycle_hours))"

definition max_on_duty_hours :: "sim_state \<Rightarrow> rat" where
  "max_on_duty_hours s =
     (let available_cycle_hours = MAX_CYCLE_HOURS - current_cycle s
      in min MAX_ON_DUTY_HOURS available_cycle_hours)"

text \<open>Lines 142 to 179: an empty day log, the day's counters at zero, the pickup if due.\<close>

definition begin_day :: "sim_state \<Rightarrow> sim_state" where
  "begin_day s =
     (let s1 = s\<lparr>entries := [], hours_driven_today := 0, hours_on_duty_today := 0,
                 hours_since_break := 0\<rparr>
      in if \<not> pickup_done s1 then pickup s1 else s1)"

text \<open>Lines 263 to 271: the rest period that ends the day.\<close>

definition end_of_day :: "rat \<Rightarrow> sim_state \<Rightarrow> sim_state" where
  "end_of_day tdh s =
     (if \<not> dropoff_done s \<or> int (cur_day s) < \<lceil>tdh / MAX_DRIVING_HOURS\<rceil>
      then rest s else s)"

text \<open>
  Lines 273 to 297: totals, cycle update, remaining hours, rounding, and the log appended.
  \<open>day_date\<close> and \<open>day_start\<close> are the \<^verbatim>\<open>date\<close> and \<^verbatim>\<open>start_time\<close> the day log
  got at line 144.
\<close>

definition close_day :: "int \<Rightarrow> int \<Rightarrow> sim_state \<Rightarrow> sim_state" where
  "close_day day_date day_start s =
     (case day_totals (entries s) (0, 0, 0) of (drv, onn, off) \<Rightarrow>
        s\<lparr>daily_logs := daily_logs s @
              [\<lparr>day_number = cur_day s, date = day_date, day_start_time = day_start,
                day_end_time = current_time s,
                log_entries = entries s,
                total_driving_hours = round2 drv,
                total_on_duty_hours = round2 onn,
                total_off_duty_hours = round2 off,
                remaining_drive_time = round2 (MAX_DRIVING_HOURS - drv),
                remaining_on_duty_time = round2 (MAX_ON_DUTY_HOURS - onn),
                cycle_hours_remaining = round2 (MAX_CYCLE_HOURS - (current_cycle s + onn)),
                is_restart = False\<rparr>],
            current_cycle := current_cycle s + onn,
            cur_day := cur_day s + 1\<rparr>)"

definition work_day :: "rat \<Rightarrow> sim_state \<Rightarrow> sim_state" where
  "work_day tdh s =
     close_day (date_of (current_time s)) (current_time s)
       (end_of_day tdh
          (drive_loop (max_drive_hours s) (max_on_duty_hours s) (begin_day s)))"

subsection \<open>The day loop and the trip plan\<close>

text \<open>
  The loop of line 119 has no bound in the source, so it is a partial function: the value
  \<open>None\<close> stands for a run that never leaves the loop.
\<close>

partial_function (option) schedule_loop :: "rat \<Rightarrow> sim_state \<Rightarrow> sim_state option" where
  "schedule_loop tdh s =
     (if 0 < remaining_driving_hours s \<or> \<not> dropoff_done s then
        if MAX_CYCLE_HOURS \<le> current_cycle s then schedule_loop tdh (restart_day s)
        else if MAX_CYCLE_HOURS - current_cycle s < 1 then schedule_loop tdh (restart_day s)
        else if dropoff_done (work_day tdh s) \<and> remaining_driving_hours (work_day tdh s) \<le> 0
        then Some (work_day tdh s)
        else schedule_loop tdh (work_day tdh s)
      else Some s)"

declare schedule_loop.simps [code]

text \<open>
  Lines 106 to 117: the state before the first iteration. The locals of a work day
  (\<open>entries\<close> and the three hour counters) do not exist yet in the source; a work day
  sets them before it reads them (\<open>begin_day\<close>).
\<close>

definition init_state :: "int \<Rightarrow> rat \<Rightarrow> rat \<Rightarrow> rat \<Rightarrow> sim_state" where
  "init_state now total_miles tdh current_cycle_used =
     \<lparr>daily_logs = [], remaining_miles = total_miles, remaining_driving_hours = tdh,
      miles_since_fuel = 0, current_cycle = current_cycle_used, cur_day = 1,
      current_time = six_am now, pickup_done = False, dropoff_done = False,
      entries = [], hours_driven_today = 0, hours_on_duty_today = 0,
      hours_since_break = 0\<rparr>"

text \<open>
  \<^verbatim>\<open>_generate_daily_schedule\<close>. The source returns \<^verbatim>\<open>daily_logs\<close>; the final
  state is kept here as well, so that the loop's own cycle counter can be compared with
  what \<^verbatim>\<open>_calculate_final_cycle_usage\<close> derives from the logs.
\<close>

definition simulate :: "int \<Rightarrow> rat \<Rightarrow> rat \<Rightarrow> rat \<Rightarrow> sim_state option" where
  "simulate now current_cycle_used total_miles tdh =
     schedule_loop tdh (init_state now total_miles tdh current_cycle_used)"

definition generate_daily_schedule :: "int \<Rightarrow> rat \<Rightarrow> rat \<Rightarrow> rat \<Rightarrow> day_log list option" where
  "generate_daily_schedule now current_cycle_used total_miles tdh =
     map_option daily_logs (simulate now current_cycle_used total_miles tdh)"

text \<open>
  \<^verbatim>\<open>_calculate_final_cycle_usage\<close>: the loop over the logs (\<open>tot\<close> is the local
  \<^verbatim>\<open>total\<close>), then the rounding of line 362.
\<close>

fun final_cycle_loop :: "day_log list \<Rightarrow> rat \<Rightarrow> rat" where
  "final_cycle_loop [] tot = tot"
| "final_cycle_loop (l # logs) tot =
     final_cycle_loop logs (if is_restart l then 0 else tot + total_on_duty_hours l)"

definition calculate_final_cycle_usage :: "rat \<Rightarrow> day_log list \<Rightarrow> rat" where
  "calculate_final_cycle_usage current_cycle_used logs =
     round2 (final_cycle_loop logs current_cycle_used)"

definition check_restart_needed :: "day_log list \<Rightarrow> bool" where
  "check_restart_needed logs = list_ex is_restart logs"

text \<open>
  \<^verbatim>\<open>HOSEngine(current_cycle_used).calculate_trip(total_miles)\<close>, run when the clock
  reads \<open>now\<close>. The source also computes \<^verbatim>\<open>total_fuel_time\<close> and
  \<^verbatim>\<open>total_operational_hours\<close> (lines 64 to 70) and uses neither; the parameters
  \<^verbatim>\<open>route_segments\<close> of \<^verbatim>\<open>calculate_trip\<close> and \<^verbatim>\<open>num_fuel_stops\<close> of
  \<^verbatim>\<open>_generate_daily_schedule\<close> are not read either.
\<close>

definition calculate_trip :: "int \<Rightarrow> rat \<Rightarrow> rat \<Rightarrow> trip_plan option" where
  "calculate_trip now current_cycle_used total_miles =
     (let tdh = total_miles / AVG_SPEED_MPH;
          nfs = \<lfloor>total_miles / FUEL_STOP_MILES\<rfloor>;
          est = \<lceil>tdh / MAX_DRIVING_HOURS\<rceil>
      in case generate_daily_schedule now current_cycle_used total_miles tdh of
           None \<Rightarrow> None
         | Some logs \<Rightarrow>
             Some \<lparr>trip_total_miles = total_miles,
                   trip_total_driving_hours = round2 tdh,
                   estimated_days = est,
                   actual_days = length logs,
                   num_fuel_stops = nfs,
                   trip_daily_logs = logs,
                   cycle_used_before = current_cycle_used,
                   cycle_used_after = calculate_final_cycle_usage current_cycle_used logs,
                   restart_needed = check_restart_needed logs\<rparr>)"

subsection \<open>Reading a plan\<close>

text \<open>What the properties below read off an entry, a daily log and a plan.\<close>

definition entry_summary :: "log_entry \<Rightarrow> duty_status \<times> rat \<times> string" where
  "entry_summary e = (status e, duration e, entry_notes e)"

definition day_summary ::
  "day_log \<Rightarrow> nat \<times> bool \<times> rat \<times> (duty_status \<times> rat \<times> string) list" where
  "day_summary l =
     (day_number l, is_restart l, cycle_hours_remaining l, map entry_summary (log_entries l))"

text \<open>The entries of all daily logs of a plan, in the order in which they were emitted.\<close>

definition all_entries :: "day_log list \<Rightarrow> log_entry list" where
  "all_entries logs = concat (map log_entries logs)"

text \<open>
  The engine marks the kind of an entry by its status and its note: pickup, dropoff and
  fuel stop are the three kinds of \<open>ON\<close> entries (lines 170, 201 and 250), and driving is
  status \<open>D\<close>.
\<close>

definition is_pickup :: "log_entry \<Rightarrow> bool" where
  "is_pickup e = (status e = ON \<and> entry_notes e = ''Pickup - Loading'')"

definition is_dropoff :: "log_entry \<Rightarrow> bool" where
  "is_dropoff e = (status e = ON \<and> entry_notes e = ''Dropoff - Unloading'')"

definition is_fuel_stop :: "log_entry \<Rightarrow> bool" where
  "is_fuel_stop e = (status e = ON \<and> entry_notes e = ''Fuel stop'')"

definition is_driving :: "log_entry \<Rightarrow> bool" where
  "is_driving e = (status e = D)"








section \<open>Notions used in the proofs\<close>

text \<open>
  None of these is part of the engine: they name the states and the sums that the
  invariants of the two loops speak about.
\<close>

text \<open>
  A state from which the day loop never gets out: the dropoff is still due, and less
  driving is left than the smallest driving segment the driving loop accepts (or none
  at all).
\<close>

definition stalled :: "sim_state \<Rightarrow> bool" where
  "stalled s = (\<not> dropoff_done s \<and> remaining_driving_hours s < 1 / 10 \<and> miles_since_fuel s < 1000)"

text \<open>
  Multiples of one hundredth: the values of \<^verbatim>\<open>round(x, 2)\<close>.
\<close>

definition hundredth :: "rat \<Rightarrow> bool" where
  "hundredth x = (x * 100 \<in> \<int>)"

text \<open>
  The three sums of lines 274 to 280, as sums over the entries of one status class.
\<close>

definition drv_sum :: "log_entry list \<Rightarrow> rat" where
  "drv_sum es = sum_list (map duration (filter (\<lambda>e. status e = D) es))"

definition on_sum :: "log_entry list \<Rightarrow> rat" where
  "on_sum es = sum_list (map duration (filter (\<lambda>e. status e = ON) es))"

definition off_sum :: "log_entry list \<Rightarrow> rat" where
  "off_sum es = sum_list (map duration (filter (\<lambda>e. status e = OFF \<or> status e = SB) es))"

text \<open>
  The state in which a work day is closed (line 273).
\<close>

definition day_state :: "rat \<Rightarrow> sim_state \<Rightarrow> sim_state" where
  "day_state tdh s =
     end_of_day tdh (drive_loop (max_drive_hours s) (max_on_duty_hours s) (begin_day s))"



text \<open>
  The fuel stops among the entries of the day under construction.
\<close>

definition fuel_today :: "sim_state \<Rightarrow> nat" where
  "fuel_today s = length (filter is_fuel_stop (entries s))"




text \<open>
  An entry that is neither the pickup nor the dropoff.
\<close>

definition plain :: "log_entry \<Rightarrow> bool" where
  "plain e = (\<not> is_pickup e \<and> \<not> is_dropoff e)"






section \<open>Lemmas\<close>

subsection \<open>The steps of the driving loop\<close>

lemmas step_defs = take_break_def fuel_stop_def drive_def dropoff_def pickup_def rest_def
  add_entry_def Let_def

subsection \<open>Runs that never return\<close>

lemma drive_loop_stalled:
  assumes "remaining_driving_hours s < 1 / 10" "hours_since_break s < 8" "miles_since_fuel s < 1000"
  shows "drive_loop md mo s = s"
proof -
  have "drive_duration md mo s < 1 / 10"
    using assms(1) by (simp add: drive_duration_def Let_def min_def)
  then show ?thesis
    using assms by (subst drive_loop.simps) simp
qed

lemma stalled_restart_day: "stalled s \<Longrightarrow> stalled (restart_day s)"
  by (simp add: stalled_def restart_day_def Let_def)

lemma stalled_begin_day: "stalled s \<Longrightarrow> stalled (begin_day s) \<and> hours_since_break (begin_day s) = 0"
  by (simp add: stalled_def begin_day_def step_defs)

lemma stalled_end_of_day: "stalled s \<Longrightarrow> stalled (end_of_day tdh s)"
  by (simp add: stalled_def end_of_day_def step_defs)

lemma stalled_close_day: "stalled s \<Longrightarrow> stalled (close_day d t s)"
  by (simp add: stalled_def close_day_def split: prod.split)

lemma stalled_work_day: "stalled s \<Longrightarrow> stalled (work_day tdh s)"
proof -
  assume st: "stalled s"
  have b: "stalled (begin_day s)" and h: "hours_since_break (begin_day s) = 0"
    using stalled_begin_day [OF st] by simp_all
  have "drive_loop (max_drive_hours s) (max_on_duty_hours s) (begin_day s) = begin_day s"
    using b h by (intro drive_loop_stalled) (simp_all add: stalled_def)
  then show ?thesis
    unfolding work_day_def using b by (simp add: stalled_close_day stalled_end_of_day)
qed

lemma stalled_diverges: "stalled s \<Longrightarrow> schedule_loop tdh s = None"
proof -
  have "\<not> stalled s" if "schedule_loop tdh s = Some y" for y
  proof (rule schedule_loop.raw_induct [where P = "\<lambda>tdh s y. \<not> stalled s", rotated 1, OF that])
    fix loop :: "rat \<Rightarrow> sim_state \<Rightarrow> sim_state option" and tdh s y
    assume IH: "\<And>t b y. loop t b = Some y \<Longrightarrow> \<not> stalled b"
    assume body: "(if 0 < remaining_driving_hours s \<or> \<not> dropoff_done s
      then if 70 \<le> current_cycle s then loop tdh (restart_day s)
           else if 70 - current_cycle s < 1
                then loop tdh (restart_day s)
                else if dropoff_done (work_day tdh s) \<and>
                        remaining_driving_hours (work_day tdh s) \<le> 0
                     then Some (work_day tdh s)
                     else loop tdh (work_day tdh s)
      else Some s) = Some y"
    show "\<not> stalled s"
    proof
      assume st: "stalled s"
      then have nd: "\<not> dropoff_done s" by (simp add: stalled_def)
      have nw: "\<not> dropoff_done (work_day tdh s)"
        using stalled_work_day [OF st] by (simp add: stalled_def)
      have "loop tdh (restart_day s) = Some y \<or> loop tdh (work_day tdh s) = Some y"
        using body nd nw by (simp split: if_splits)
      then show False
        using IH stalled_restart_day [OF st] stalled_work_day [OF st] by blast
    qed
  qed
  then show "stalled s \<Longrightarrow> schedule_loop tdh s = None"
    by (cases "schedule_loop tdh s") auto
qed

lemma stalled_init:
  "total_miles < 6 \<Longrightarrow> stalled (init_state now total_miles (total_miles / 60) c)"
  by (simp add: stalled_def init_state_def)

subsection \<open>The branches of the driving loop, and its invariant rule\<close>

lemma drive_loop_exit:
  assumes "\<not> (hours_driven_today s < md \<and> hours_on_duty_today s < mo
              \<and> 0 < remaining_driving_hours s)"
  shows "drive_loop md mo s = s"
  using assms by (subst drive_loop.simps) (simp only: if_True if_False simp_thms)

lemma drive_loop_break:
  assumes "hours_driven_today s < md \<and> hours_on_duty_today s < mo
           \<and> 0 < remaining_driving_hours s"
    and "8 \<le> hours_since_break s"
  shows "drive_loop md mo s = drive_loop md mo (take_break s)"
  using assms by (subst drive_loop.simps) (simp only: if_True if_False simp_thms)

lemma drive_loop_fuel:
  assumes "hours_driven_today s < md \<and> hours_on_duty_today s < mo
           \<and> 0 < remaining_driving_hours s"
    and "\<not> 8 \<le> hours_since_break s"
    and "1000 \<le> miles_since_fuel s \<and> 0 < remaining_miles s"
  shows "drive_loop md mo s = drive_loop md mo (fuel_stop s)"
  using assms by (subst drive_loop.simps) (simp only: if_True if_False simp_thms)

lemma drive_loop_epsilon:
  assumes "hours_driven_today s < md \<and> hours_on_duty_today s < mo
           \<and> 0 < remaining_driving_hours s"
    and "\<not> 8 \<le> hours_since_break s"
    and "\<not> (1000 \<le> miles_since_fuel s \<and> 0 < remaining_miles s)"
    and "drive_duration md mo s < 1 / 10"
  shows "drive_loop md mo s = s"
  using assms by (subst drive_loop.simps) (simp only: if_True if_False simp_thms)

lemma drive_loop_dropoff:
  assumes "hours_driven_today s < md \<and> hours_on_duty_today s < mo
           \<and> 0 < remaining_driving_hours s"
    and "\<not> 8 \<le> hours_since_break s"
    and "\<not> (1000 \<le> miles_since_fuel s \<and> 0 < remaining_miles s)"
    and "\<not> drive_duration md mo s < 1 / 10"
    and "remaining_driving_hours (drive (drive_duration md mo s) s) \<le> 0
         \<and> \<not> dropoff_done (drive (drive_duration md mo s) s)"
  shows "drive_loop md mo s = dropoff (drive (drive_duration md mo s) s)"
  using assms by (subst drive_loop.simps) (simp only: if_True if_False simp_thms)

lemma drive_loop_drive:
  assumes "hours_driven_today s < md \<and> hours_on_duty_today s < mo
           \<and> 0 < remaining_driving_hours s"
    and "\<not> 8 \<le> hours_since_break s"
    and "\<not> (1000 \<le> miles_since_fuel s \<and> 0 < remaining_miles s)"
    and "\<not> drive_duration md mo s < 1 / 10"
    and "\<not> (remaining_driving_hours (drive (drive_duration md mo s) s) \<le> 0
            \<and> \<not> dropoff_done (drive (drive_duration md mo s) s))"
  shows "drive_loop md mo s = drive_loop md mo (drive (drive_duration md mo s) s)"
  using assms by (subst drive_loop.simps) (simp only: if_True if_False simp_thms)

lemma drive_loop_rule:
  assumes init: "P s"
    and brk: "\<And>s. \<lbrakk>P s; hours_driven_today s < md; hours_on_duty_today s < mo;
                 0 < remaining_driving_hours s; 8 \<le> hours_since_break s\<rbrakk>
               \<Longrightarrow> P (take_break s)"
    and fuel: "\<And>s. \<lbrakk>P s; hours_driven_today s < md; hours_on_duty_today s < mo;
                 0 < remaining_driving_hours s; hours_since_break s < 8;
                 1000 \<le> miles_since_fuel s; 0 < remaining_miles s\<rbrakk>
               \<Longrightarrow> P (fuel_stop s)"
    and drv: "\<And>s. \<lbrakk>P s; hours_driven_today s < md; hours_on_duty_today s < mo;
                 0 < remaining_driving_hours s; hours_since_break s < 8;
                 \<not> (1000 \<le> miles_since_fuel s \<and> 0 < remaining_miles s);
                 1 / 10 \<le> drive_duration md mo s;
                 \<not> (remaining_driving_hours (drive (drive_duration md mo s) s) \<le> 0
                    \<and> \<not> dropoff_done (drive (drive_duration md mo s) s))\<rbrakk>
               \<Longrightarrow> P (drive (drive_duration md mo s) s)"
    and fin: "\<And>s. P s \<Longrightarrow> Q s"
    and drop: "\<And>s. \<lbrakk>P s; hours_driven_today s < md; hours_on_duty_today s < mo;
                 0 < remaining_driving_hours s; hours_since_break s < 8;
                 \<not> (1000 \<le> miles_since_fuel s \<and> 0 < remaining_miles s);
                 1 / 10 \<le> drive_duration md mo s;
                 remaining_driving_hours (drive (drive_duration md mo s) s) \<le> 0;
                 \<not> dropoff_done (drive (drive_duration md mo s) s)\<rbrakk>
               \<Longrightarrow> Q (dropoff (drive (drive_duration md mo s) s))"
  shows "Q (drive_loop md mo s)"
  using assms
proof (induction md mo s rule: drive_loop.induct)
  case (1 md mo s)
  note P = "1.prems"(1) and brk = "1.prems"(2) and fuel = "1.prems"(3)
    and drv = "1.prems"(4) and fin = "1.prems"(5) and drop = "1.prems"(6)
  note rules = "1.prems"(2-6)
  let ?g = "hours_driven_today s < md \<and> hours_on_duty_today s < mo
            \<and> 0 < remaining_driving_hours s"
  let ?dd = "drive_duration md mo s"
  show ?case
  proof (cases ?g)
    case False
    show ?thesis unfolding drive_loop_exit [OF False] by (rule fin [OF P])
  next
    case g: True
    then have g1: "hours_driven_today s < md" and g2: "hours_on_duty_today s < mo"
      and g3: "0 < remaining_driving_hours s" by simp_all
    show ?thesis
    proof (cases "8 \<le> hours_since_break s")
      case True
      have "P (take_break s)" by (rule brk [OF P g1 g2 g3 True])
      then show ?thesis
        unfolding drive_loop_break [OF g True] by (rule "1.IH"(1) [OF g True _ rules])
    next
      case nb: False
      then have nb': "hours_since_break s < 8" by simp
      show ?thesis
      proof (cases "1000 \<le> miles_since_fuel s \<and> 0 < remaining_miles s")
        case True
        have "P (fuel_stop s)"
          by (rule fuel [OF P g1 g2 g3 nb' conjunct1 [OF True] conjunct2 [OF True]])
        then show ?thesis
          unfolding drive_loop_fuel [OF g nb True] by (rule "1.IH"(2) [OF g nb True _ rules])
      next
        case nf: False
        show ?thesis
        proof (cases "?dd < 1 / 10")
          case True
          show ?thesis unfolding drive_loop_epsilon [OF g nb nf True] by (rule fin [OF P])
        next
          case nd: False
          then have nd': "1 / 10 \<le> ?dd" by simp
          show ?thesis
          proof (cases "remaining_driving_hours (drive ?dd s) \<le> 0
                        \<and> \<not> dropoff_done (drive ?dd s)")
            case True
            have "Q (dropoff (drive ?dd s))"
              by (rule drop [OF P g1 g2 g3 nb' nf nd' conjunct1 [OF True] conjunct2 [OF True]])
            then show ?thesis unfolding drive_loop_dropoff [OF g nb nf nd True] .
          next
            case False
            have "P (drive ?dd s)" by (rule drv [OF P g1 g2 g3 nb' nf nd' False])
            then show ?thesis
              unfolding drive_loop_drive [OF g nb nf nd False]
              by (rule "1.IH"(3) [OF g nb nf nd False _ rules])
          qed
        qed
      qed
    qed
  qed
qed

lemma drive_loop_pres:
  assumes "P s"
    and "\<And>s. P s \<Longrightarrow> P (take_break s)"
    and "\<And>s. P s \<Longrightarrow> P (fuel_stop s)"
    and "\<And>s dd. P s \<Longrightarrow> P (drive dd s)"
    and "\<And>s. P s \<Longrightarrow> P (dropoff s)"
  shows "P (drive_loop md mo s)"
  using assms(1)
  by (rule drive_loop_rule [where P = P and Q = P]) (simp_all add: assms)

subsection \<open>An invariant rule for the day loop\<close>


subsection \<open>Rounding\<close>

lemma round_half_even_of_int [simp]: "round_half_even (of_int n) = n"
  by (simp add: round_half_even_def)


lemma hundredth_round2 [simp]: "hundredth (round2 x)"
  by (simp add: hundredth_def round2_def)



lemma hundredth_0 [simp]: "hundredth 0"
  by (simp add: hundredth_def)

lemma hundredth_of_int [simp]: "hundredth (of_int n)"
  by (simp add: hundredth_def)


lemma day_totals_sums:
  "day_totals es (a, b, c) = (a + drv_sum es, b + drv_sum es + on_sum es, c + off_sum es)"
proof (induction es arbitrary: a b c)
  case Nil
  then show ?case by (simp add: drv_sum_def on_sum_def off_sum_def)
next
  case (Cons e es)
  show ?case
    by (cases "status e") (simp_all add: Cons.IH drv_sum_def on_sum_def off_sum_def)
qed


subsection \<open>What each part of a day changes\<close>

lemma begin_day_frame [simp]:
  "daily_logs (begin_day s) = daily_logs s"
  "current_cycle (begin_day s) = current_cycle s"
  "cur_day (begin_day s) = cur_day s"
  "remaining_driving_hours (begin_day s) = remaining_driving_hours s"
  "remaining_miles (begin_day s) = remaining_miles s"
  "miles_since_fuel (begin_day s) = miles_since_fuel s"
  "dropoff_done (begin_day s) = dropoff_done s"
  "pickup_done (begin_day s) = True"
  "hours_driven_today (begin_day s) = 0"
  "hours_since_break (begin_day s) = 0"
  by (simp_all add: begin_day_def step_defs)

lemma end_of_day_frame [simp]:
  "daily_logs (end_of_day tdh s) = daily_logs s"
  "current_cycle (end_of_day tdh s) = current_cycle s"
  "cur_day (end_of_day tdh s) = cur_day s"
  "remaining_driving_hours (end_of_day tdh s) = remaining_driving_hours s"
  "remaining_miles (end_of_day tdh s) = remaining_miles s"
  "miles_since_fuel (end_of_day tdh s) = miles_since_fuel s"
  "dropoff_done (end_of_day tdh s) = dropoff_done s"
  "pickup_done (end_of_day tdh s) = pickup_done s"
  by (simp_all add: end_of_day_def step_defs)

lemma close_day_frame [simp]:
  "remaining_driving_hours (close_day d t s) = remaining_driving_hours s"
  "remaining_miles (close_day d t s) = remaining_miles s"
  "miles_since_fuel (close_day d t s) = miles_since_fuel s"
  "dropoff_done (close_day d t s) = dropoff_done s"
  "pickup_done (close_day d t s) = pickup_done s"
  "cur_day (close_day d t s) = cur_day s + 1"
  "current_cycle (close_day d t s) = current_cycle s + (drv_sum (entries s) + on_sum (entries s))"
  by (simp_all add: close_day_def day_totals_sums)


lemma restart_day_frame [simp]:
  "remaining_driving_hours (restart_day s) = remaining_driving_hours s"
  "remaining_miles (restart_day s) = remaining_miles s"
  "miles_since_fuel (restart_day s) = miles_since_fuel s"
  "dropoff_done (restart_day s) = dropoff_done s"
  "pickup_done (restart_day s) = pickup_done s"
  "cur_day (restart_day s) = cur_day s + 1"
  "current_cycle (restart_day s) = 0"
  "daily_logs (restart_day s) = daily_logs s @ [create_restart_log (cur_day s) (current_time s)]"
  by (simp_all add: restart_day_def Let_def)

lemma drive_loop_frame [simp]:
  "daily_logs (drive_loop md mo s) = daily_logs s"
  "current_cycle (drive_loop md mo s) = current_cycle s"
  "cur_day (drive_loop md mo s) = cur_day s"
  "pickup_done (drive_loop md mo s) = pickup_done s"
proof -
  show "daily_logs (drive_loop md mo s) = daily_logs s"
    by (rule drive_loop_pres [where P = "\<lambda>t. daily_logs t = daily_logs s"])
       (simp_all add: step_defs)
  show "current_cycle (drive_loop md mo s) = current_cycle s"
    by (rule drive_loop_pres [where P = "\<lambda>t. current_cycle t = current_cycle s"])
       (simp_all add: step_defs)
  show "cur_day (drive_loop md mo s) = cur_day s"
    by (rule drive_loop_pres [where P = "\<lambda>t. cur_day t = cur_day s"])
       (simp_all add: step_defs)
  show "pickup_done (drive_loop md mo s) = pickup_done s"
    by (rule drive_loop_pres [where P = "\<lambda>t. pickup_done t = pickup_done s"])
       (simp_all add: step_defs)
qed

lemma day_state_frame [simp]:
  "daily_logs (day_state tdh s) = daily_logs s"
  "current_cycle (day_state tdh s) = current_cycle s"
  "cur_day (day_state tdh s) = cur_day s"
  "pickup_done (day_state tdh s) = True"
  by (simp_all add: day_state_def)

lemma create_log_entry_sel [simp]:
  "status (create_log_entry st t d n) = st"
  "duration (create_log_entry st t d n) = round2 d"
  "entry_notes (create_log_entry st t d n) = n"
  "start_time (create_log_entry st t d n) = t"
  by (simp_all add: create_log_entry_def)

lemma step_entries [simp]:
  "entries (take_break s) = entries s @ [create_log_entry OFF (current_time s) (1 / 2)
      ''30-minute break (8-hour rule)'']"
  "entries (fuel_stop s) = entries s @ [create_log_entry ON (current_time s) (1 / 2) ''Fuel stop'']"
  "entries (drive dd s) = entries s @ [create_log_entry D (current_time s) dd
      (''Driving - '' @ fmt0 (dd * 60) @ '' miles'')]"
  "entries (dropoff s) = entries s @ [create_log_entry ON (current_time s) 1 ''Dropoff - Unloading'']"
  "entries (pickup s) = entries s @ [create_log_entry ON (current_time s) 1 ''Pickup - Loading'']"
  "entries (rest s) = entries s @ [create_log_entry SB (current_time s) 10
      ''10-hour rest period (daily reset)'']"
  by (simp_all add: step_defs)




subsection \<open>The cycle counter and its recomputation\<close>




subsection \<open>Fuel stops\<close>

lemma all_entries_append [simp]:
  "all_entries (logs @ [l]) = all_entries logs @ log_entries l"
  by (simp add: all_entries_def)

lemma all_entries_Nil [simp]: "all_entries [] = []"
  by (simp add: all_entries_def)

lemma step_miles [simp]:
  "miles_since_fuel (take_break s) = miles_since_fuel s"
  "remaining_miles (take_break s) = remaining_miles s"
  "miles_since_fuel (fuel_stop s) = 0"
  "remaining_miles (fuel_stop s) = remaining_miles s"
  "miles_since_fuel (drive dd s) = miles_since_fuel s + dd * 60"
  "remaining_miles (drive dd s) = remaining_miles s - dd * 60"
  "miles_since_fuel (dropoff s) = miles_since_fuel s"
  "remaining_miles (dropoff s) = remaining_miles s"
  by (simp_all add: step_defs)

lemma fuel_today_steps [simp]:
  "fuel_today (take_break s) = fuel_today s"
  "fuel_today (fuel_stop s) = fuel_today s + 1"
  "fuel_today (drive dd s) = fuel_today s"
  "fuel_today (dropoff s) = fuel_today s"
  "fuel_today (begin_day s) = 0"
  "fuel_today (end_of_day tdh s) = fuel_today s"
  by (simp_all add: fuel_today_def is_fuel_stop_def begin_day_def end_of_day_def Let_def)






subsection \<open>The daily caps\<close>

lemma sums_append [simp]:
  "drv_sum (es @ fs) = drv_sum es + drv_sum fs"
  "on_sum (es @ fs) = on_sum es + on_sum fs"
  "off_sum (es @ fs) = off_sum es + off_sum fs"
  by (simp_all add: drv_sum_def on_sum_def off_sum_def)

lemma sums_Cons [simp]:
  "drv_sum (e # es) = (if status e = D then duration e + drv_sum es else drv_sum es)"
  "on_sum (e # es) = (if status e = ON then duration e + on_sum es else on_sum es)"
  "off_sum (e # es) =
     (if status e = OFF \<or> status e = SB then duration e + off_sum es else off_sum es)"
  by (simp_all add: drv_sum_def on_sum_def off_sum_def)

lemma sums_Nil [simp]: "drv_sum [] = 0" "on_sum [] = 0" "off_sum [] = 0"
  by (simp_all add: drv_sum_def on_sum_def off_sum_def)

lemma round2_consts [simp]: "round2 (1 / 2) = 1 / 2" "round2 1 = 1" "round2 2 = 2" "round2 10 = 10"
  by (simp_all add: round2_def round_half_even_def)

lemma step_hours [simp]:
  "hours_driven_today (take_break s) = hours_driven_today s"
  "hours_on_duty_today (take_break s) = hours_on_duty_today s"
  "hours_since_break (take_break s) = 0"
  "remaining_driving_hours (take_break s) = remaining_driving_hours s"
  "hours_driven_today (fuel_stop s) = hours_driven_today s"
  "hours_on_duty_today (fuel_stop s) = hours_on_duty_today s + 1 / 2"
  "hours_since_break (fuel_stop s) = hours_since_break s"
  "remaining_driving_hours (fuel_stop s) = remaining_driving_hours s"
  "hours_driven_today (drive dd s) = hours_driven_today s + dd"
  "hours_on_duty_today (drive dd s) = hours_on_duty_today s + dd"
  "hours_since_break (drive dd s) = hours_since_break s + dd"
  "remaining_driving_hours (drive dd s) = remaining_driving_hours s - dd"
  "hours_driven_today (dropoff s) = hours_driven_today s"
  "hours_on_duty_today (dropoff s) = hours_on_duty_today s + 1"
  "hours_since_break (dropoff s) = hours_since_break s"
  "remaining_driving_hours (dropoff s) = remaining_driving_hours s"
  by (simp_all add: step_defs)










subsection \<open>Pickup and dropoff\<close>

lemma plain_entries [simp]:
  "plain (create_log_entry OFF t d n)"
  "plain (create_log_entry SB t d n)"
  "plain (create_log_entry D t d n)"
  "plain (create_log_entry ON t d ''Fuel stop'')"
  "\<not> is_driving (create_log_entry SB t d n)"
  "is_driving (create_log_entry D t d n)"
  "is_dropoff (create_log_entry ON t d ''Dropoff - Unloading'')"
  "is_pickup (create_log_entry ON t d ''Pickup - Loading'')"
  "\<not> is_dropoff (create_log_entry ON t d ''Pickup - Loading'')"
  by (simp_all add: plain_def is_pickup_def is_dropoff_def is_driving_def)

lemma step_dropoff_done [simp]:
  "dropoff_done (take_break s) = dropoff_done s"
  "dropoff_done (fuel_stop s) = dropoff_done s"
  "dropoff_done (drive dd s) = dropoff_done s"
  "dropoff_done (dropoff s) = True"
  by (simp_all add: step_defs)























subsection \<open>A trip that stalls on its second day\<close>

lemma residual_trip_never_returns: "calculate_trip now 0 123 = None"
proof -
  let ?s0 = "init_state now 123 (123 / 60) 0"
  have st: "stalled (work_day (123 / 60) ?s0)" by code_simp
  then have nd: "\<not> dropoff_done (work_day (123 / 60) ?s0)" by (simp add: stalled_def)
  have "schedule_loop (123 / 60) ?s0 = schedule_loop (123 / 60) (work_day (123 / 60) ?s0)"
    using nd by (subst schedule_loop.simps) (simp add: init_state_def)
  also have "\<dots> = None" using st by (rule stalled_diverges)
  finally show ?thesis
    by (simp add: calculate_trip_def generate_daily_schedule_def simulate_def)
qed

subsection \<open>A day without driving\<close>



section \<open>Properties\<close>

subsection \<open>Termination of the day loop\<close>

text \<open>
  C1 claims that the day loop of \<^verbatim>\<open>calculate_trip\<close> terminates for every non-negative
  \<^verbatim>\<open>total_miles\<close> and every \<^verbatim>\<open>current_cycle_used\<close> between 0 and 70, in a number of
  iterations proportional to the driving hours. The code does not: for every trip shorter
  than 6 miles (less than a tenth of an hour of driving, zero miles included) and every
  cycle value, the call never returns. The driving loop leaves each day without a driving
  entry (its guard of line 182 fails when no driving is left, and the guard of line 226
  ends it when less than 0.1 hour is left), so the dropoff of line 248, which is only
  emitted after a driving entry, is never reached, and the loop of line 119 goes on
  appending days. The same happens later in a trip whenever less than 0.1 hour of driving
  is left over, as for 123 miles (lemma \<open>residual_trip_never_returns\<close>).
\<close>

theorem short_trip_never_returns:
  "0 \<le> total_miles \<Longrightarrow> total_miles < 6 \<Longrightarrow> calculate_trip now current_cycle_used total_miles = None"
  by (simp add: calculate_trip_def generate_daily_schedule_def simulate_def
       stalled_diverges stalled_init)

text \<open>The theorem at 3 miles and no cycle hours used.\<close>

theorem short_trip_never_returns_witness:
  "(0::rat) \<le> 3 \<and> (3::rat) < 6 \<and> calculate_trip 0 0 3 = None"
  using short_trip_never_returns [of 3 0 0] by simp

subsection \<open>Scenario D: zero miles\<close>

text \<open>
  C2 claims that for \<^verbatim>\<open>total_miles = 0\<close> the plan has the pickup followed by the dropoff
  on day 1, no driving, no fuel stop and no restart. The code returns no plan at all, for
  any cycle value: with no driving hours the driving loop is never entered, and the
  dropoff is only emitted inside it. The first day (here with no cycle hours used) holds
  the pickup and the rest period and no dropoff, and every later day only a rest period.
\<close>

theorem zero_miles_never_returns:
  "calculate_trip now current_cycle_used 0 = None
   \<and> map entry_summary (log_entries (last (daily_logs (work_day 0 (init_state now 0 0 0)))))
       = [(ON, 1, ''Pickup - Loading''), (SB, 10, ''10-hour rest period (daily reset)'')]"
proof
  show "calculate_trip now current_cycle_used 0 = None"
    using stalled_init [of 0 now current_cycle_used]
    by (simp add: calculate_trip_def generate_daily_schedule_def simulate_def stalled_diverges)
  show "map entry_summary (log_entries (last (daily_logs (work_day 0 (init_state now 0 0 0)))))
       = [(ON, 1, ''Pickup - Loading''), (SB, 10, ''10-hour rest period (daily reset)'')]"
    by code_simp
qed

subsection \<open>The daily caps\<close>



subsection \<open>Scenario C: 68 hours used, 100 miles\<close>

text \<open>
  C4, as stated: with \<^verbatim>\<open>current_cycle_used = 68\<close> and \<^verbatim>\<open>total_miles = 100\<close> the first
  emitted day is a restart log. It is not: the engine restarts only when the cycle counter
  has reached 70 or less than one hour of the cycle is left (lines 121 and 132), and at 68
  two hours are left.
\<close>

theorem scenario_c_first_day_is_not_restart:
  "\<not> (\<exists>plan. calculate_trip 0 68 100 = Some plan \<and> is_restart (hd (trip_daily_logs plan)))"
proof -
  have "map_option (map is_restart \<circ> trip_daily_logs) (calculate_trip 0 68 100)
        = Some [False, True, False]"
    by code_simp
  then show ?thesis by auto
qed

text \<open>
  C4, amended: with \<^verbatim>\<open>current_cycle_used = 68\<close> and \<^verbatim>\<open>total_miles = 100\<close> the plan has
  three days, whatever the clock reads. Day 1 is a work day: pickup, one hour of driving
  (the two cycle hours that were left are used up: no cycle hours remain), rest. Day 2 is
  the restart log. Day 3 is built after the reset of the cycle counter: the remaining 40
  miles, then the dropoff.
\<close>

theorem scenario_c_plan:
  "map_option (map day_summary \<circ> trip_daily_logs) (calculate_trip now 68 100) =
     Some [(1, False, 0,
             [(ON, 1, ''Pickup - Loading''), (D, 1, ''Driving - 60 miles''),
              (SB, 10, ''10-hour rest period (daily reset)'')]),
           (2, True, 70, [(OFF, 34, ''34-hour restart (cycle reset)'')]),
           (3, False, 6833 / 100,
             [(D, 67 / 100, ''Driving - 40 miles''), (ON, 1, ''Dropoff - Unloading'')])]"
  by code_simp

subsection \<open>One pickup, one dropoff\<close>




subsection \<open>The cycle counter at a restart\<close>

text \<open>
  C6 claims that the cycle counter is zero after every restart log and is at most 70 when
  a restart is triggered. The first half holds (line 125). The second does not: the
  driving entries are cut to the cycle hours left (line 216), but a fuel stop is emitted
  whenever the duty limit is not yet reached (line 182), without a check that its half
  hour fits. With \<^verbatim>\<open>current_cycle_used = 51.7\<close> and 1500 miles, the second day starts
  with 6.3 cycle hours, drives six hours and then takes a fuel stop: the counter is 70.2
  when the third iteration triggers the restart, with eight hours of driving still to do,
  and the log of day 2 reports \<open>-0.2\<close> cycle hours remaining.
\<close>

theorem cycle_exceeds_cap_before_restart:
  "(let tdh = 1500 / AVG_SPEED_MPH;
        s0 = init_state 0 1500 tdh (517 / 10);
        s1 = work_day tdh s0;
        s2 = work_day tdh s1
    in schedule_loop tdh s0 = schedule_loop tdh (restart_day s2)
       \<and> current_cycle s2 = 351 / 5
       \<and> MAX_CYCLE_HOURS < current_cycle s2
       \<and> 0 < remaining_driving_hours s2)
   \<and> map_option (map day_summary \<circ> trip_daily_logs) (calculate_trip 0 (517 / 10) 1500) =
     Some [(1, False, 63 / 10,
             [(ON, 1, ''Pickup - Loading''), (D, 2, ''Driving - 120 miles''),
              (D, 2, ''Driving - 120 miles''), (D, 2, ''Driving - 120 miles''),
              (D, 2, ''Driving - 120 miles''),
              (OFF, 1 / 2, ''30-minute break (8-hour rule)''),
              (D, 2, ''Driving - 120 miles''), (D, 1, ''Driving - 60 miles''),
              (SB, 10, ''10-hour rest period (daily reset)'')]),
           (2, False, - (1 / 5),
             [(D, 2, ''Driving - 120 miles''), (D, 2, ''Driving - 120 miles''),
              (D, 2, ''Driving - 120 miles''), (ON, 1 / 2, ''Fuel stop''),
              (SB, 10, ''10-hour rest period (daily reset)'')]),
           (3, True, 70, [(OFF, 34, ''34-hour restart (cycle reset)'')]),
           (4, False, 61,
             [(D, 2, ''Driving - 120 miles''), (D, 2, ''Driving - 120 miles''),
              (D, 2, ''Driving - 120 miles''), (D, 2, ''Driving - 120 miles''),
              (ON, 1, ''Dropoff - Unloading'')])]"
proof -
  let ?tdh = "1500 / 60 :: rat"
  let ?s0 = "init_state 0 1500 ?tdh (517 / 10)"
  let ?s1 = "work_day ?tdh ?s0"
  let ?s2 = "work_day ?tdh ?s1"
  have f0: "0 < remaining_driving_hours ?s0" "\<not> 70 \<le> current_cycle ?s0"
    "\<not> 70 - current_cycle ?s0 < 1" "\<not> dropoff_done ?s1"
    by code_simp+
  have f1: "0 < remaining_driving_hours ?s1" "\<not> 70 \<le> current_cycle ?s1"
    "\<not> 70 - current_cycle ?s1 < 1" "\<not> dropoff_done ?s2"
    by code_simp+
  have f2: "0 < remaining_driving_hours ?s2" "70 \<le> current_cycle ?s2"
    "current_cycle ?s2 = 351 / 5" "70 < current_cycle ?s2"
    by code_simp+
  have "schedule_loop ?tdh ?s0 = schedule_loop ?tdh ?s1"
    using f0 by (subst schedule_loop.simps) (simp only: if_True if_False simp_thms)
  also have "\<dots> = schedule_loop ?tdh ?s2"
    using f1 by (subst schedule_loop.simps) (simp only: if_True if_False simp_thms)
  also have "\<dots> = schedule_loop ?tdh (restart_day ?s2)"
    using f2 by (subst schedule_loop.simps) (simp only: if_True if_False simp_thms)
  finally have a: "schedule_loop ?tdh ?s0 = schedule_loop ?tdh (restart_day ?s2)" .
  have b: "map_option (map day_summary \<circ> trip_daily_logs) (calculate_trip 0 (517 / 10) 1500) =
     Some [(1, False, 63 / 10,
             [(ON, 1, ''Pickup - Loading''), (D, 2, ''Driving - 120 miles''),
              (D, 2, ''Driving - 120 miles''), (D, 2, ''Driving - 120 miles''),
              (D, 2, ''Driving - 120 miles''),
              (OFF, 1 / 2, ''30-minute break (8-hour rule)''),
              (D, 2, ''Driving - 120 miles''), (D, 1, ''Driving - 60 miles''),
              (SB, 10, ''10-hour rest period (daily reset)'')]),
           (2, False, - (1 / 5),
             [(D, 2, ''Driving - 120 miles''), (D, 2, ''Driving - 120 miles''),
              (D, 2, ''Driving - 120 miles''), (ON, 1 / 2, ''Fuel stop''),
              (SB, 10, ''10-hour rest period (daily reset)'')]),
           (3, True, 70, [(OFF, 34, ''34-hour restart (cycle reset)'')]),
           (4, False, 61,
             [(D, 2, ''Driving - 120 miles''), (D, 2, ''Driving - 120 miles''),
              (D, 2, ''Driving - 120 miles''), (D, 2, ''Driving - 120 miles''),
              (ON, 1, ''Dropoff - Unloading'')])]"
    by code_simp
  show ?thesis
    unfolding Let_def using a f2 b by (intro conjI)
qed

subsection \<open>Determinism\<close>



subsection \<open>The recomputed cycle usage\<close>




subsection \<open>A driving segment below the epsilon\<close>




subsection \<open>Fuel stops counted and fuel stops emitted\<close>



end
